theory Spec2Isabelle
  imports Main "HOL-Library.Stream" "HOL-Library.Word"
begin

section \<open>The state a run works on\<close>

text \<open>
  The program of \<^verbatim>\<open>main.py\<close> reads three pieces of global state: the generator behind
  \<^verbatim>\<open>random.choice\<close>, the \<^verbatim>\<open>logging\<close> module and the file system. They are the fields of
  one record that every function takes and returns.

  A text is a \<^typ>\<open>string\<close>, one list element for each character Python's \<^verbatim>\<open>str\<close> counts,
  so that \<^const>\<open>length\<close> is Python's \<^verbatim>\<open>len\<close>. A file holds bytes.
\<close>

type_synonym bytes = "8 word list"

text \<open>One constructor for each logging call of the source, with the values it formats.\<close>

datatype log_entry =
    Debug_masking string string
  | Error_invalid_regex string
  | Error_no_encoding string
  | Error_decoding string string
  | Error_not_found string
  | Error_reading string
  | Info_processed string string
  | Error_writing string

text \<open>
  \<open>rng\<close> is the sequence of raw values the random generator will deliver, \<open>log\<close> the
  logging calls made so far, oldest first. \<open>files\<close> maps a path to its content;
  \<open>unreadable\<close> are the existing paths whose \<^verbatim>\<open>open(..., 'rb')\<close> or \<^verbatim>\<open>read()\<close> raises an
  \<^verbatim>\<open>OSError\<close>, \<open>unwritable\<close> the paths whose \<^verbatim>\<open>open(..., 'w')\<close> raises one, and \<open>space\<close> the
  number of bytes the device still accepts before a write fails.
\<close>

record world =
  rng :: "nat stream"
  log :: "log_entry list"
  files :: "string \<rightharpoonup> bytes"
  unreadable :: "string set"
  unwritable :: "string set"
  space :: nat

definition logging :: "log_entry \<Rightarrow> world \<Rightarrow> world" where
  "logging e w = w\<lparr>log := log w @ [e]\<rparr>"


section \<open>Random tokens\<close>

text \<open>\<^verbatim>\<open>string.ascii_uppercase + string.digits\<close>\<close>

definition characters :: string where
  "characters = ''ABCDEFGHIJKLMNOPQRSTUVWXYZ'' @ ''0123456789''"

text \<open>
  \<^verbatim>\<open>random.choice(seq)\<close> is \<^verbatim>\<open>seq[self._randbelow(len(seq))]\<close>: the next raw value of the
  generator, brought below \<^verbatim>\<open>len(seq)\<close>. Every index below the length is the image of some
  raw value, so no outcome of the real generator is left out. Python raises \<^verbatim>\<open>IndexError\<close>
  on an empty sequence; the source calls it on the 36 \<^const>\<open>characters\<close> only.
\<close>

definition random_choice :: "'a list \<Rightarrow> world \<Rightarrow> 'a \<times> world" where
  "random_choice seq w = (seq ! (shd (rng w) mod length seq), w\<lparr>rng := stl (rng w)\<rparr>)"

text \<open>The generator expression \<^verbatim>\<open>random.choice(characters) for i in range(n)\<close>, joined.\<close>

fun choices :: "nat \<Rightarrow> world \<Rightarrow> string \<times> world" where
  "choices 0 w = ([], w)"
| "choices (Suc n) w =
     (let (c, w1) = random_choice characters w;
          (cs, w2) = choices n w1
      in (c # cs, w2))"

text \<open>The argument is a Python \<^verbatim>\<open>int\<close>; \<^verbatim>\<open>range\<close> of a negative number is empty.\<close>

definition generate_random_string :: "int \<Rightarrow> world \<Rightarrow> string \<times> world" where
  "generate_random_string n w = choices (nat n) w"


section \<open>Masking one match\<close>

text \<open>
  An \<^verbatim>\<open>re.Match\<close>: the string that was searched and the span of the match in it.
  \<^verbatim>\<open>match.group(0)\<close> is the slice \<^verbatim>\<open>string[start:end]\<close>.
\<close>

record match =
  m_string :: string
  m_start :: nat
  m_end :: nat

definition slice :: "string \<Rightarrow> nat \<Rightarrow> nat \<Rightarrow> string" where
  "slice s i j = take (j - i) (drop i s)"

definition group0 :: "match \<Rightarrow> string" where
  "group0 m = slice (m_string m) (m_start m) (m_end m)"

definition mask_serial_number :: "match \<Rightarrow> world \<Rightarrow> string \<times> world" where
  "mask_serial_number m w =
     (let matched_string = group0 m;
          (masked_string, w1) = generate_random_string (int (length matched_string)) w
      in (masked_string, logging (Debug_masking matched_string masked_string) w1))"


section \<open>The regular expression module\<close>

text \<open>
  \<^verbatim>\<open>re\<close> is a library the program calls, so it is a parameter of the model: \<open>compile\<close> is
  \<^verbatim>\<open>re.compile\<close>, with \<open>None\<close> for a pattern on which it raises \<^verbatim>\<open>re.error\<close>, and \<open>finditer\<close>
  gives the spans \<open>(start, end)\<close> of the leftmost non-overlapping matches of a compiled
  pattern in a string, in the order the scan of \<^verbatim>\<open>re.sub\<close> and \<^verbatim>\<open>re.finditer\<close> finds them.
\<close>

record 'r re_module =
  compile :: "string \<Rightarrow> 'r option"
  finditer :: "'r \<Rightarrow> string \<Rightarrow> (nat \<times> nat) list"

text \<open>
  The substitution loop of \<^verbatim>\<open>re.sub\<close> with a callable replacement: for each match, the
  text between the end \<open>i\<close> of the previous match and its start is copied, the callable is
  called on the match and its result appended; the text after the last match is copied.
  The matches are those of the string as it was passed in.
\<close>

fun subx :: "(match \<Rightarrow> world \<Rightarrow> string \<times> world) \<Rightarrow> string \<Rightarrow> nat \<Rightarrow> (nat \<times> nat) list
    \<Rightarrow> world \<Rightarrow> string \<times> world" where
  "subx repl s i [] w = (drop i s, w)"
| "subx repl s i ((b, e) # ms) w =
     (let (item, w1) = repl \<lparr>m_string = s, m_start = b, m_end = e\<rparr> w;
          (rest, w2) = subx repl s e ms w1
      in (slice s i b @ item @ rest, w2))"

text \<open>\<^verbatim>\<open>re.sub(pattern, repl, string)\<close>: \<open>None\<close> stands for \<^verbatim>\<open>re.error\<close>.\<close>

definition re_sub :: "'r re_module \<Rightarrow> string \<Rightarrow> (match \<Rightarrow> world \<Rightarrow> string \<times> world) \<Rightarrow> string
    \<Rightarrow> world \<Rightarrow> (string \<times> world) option" where
  "re_sub re pattern repl s w =
     (case compile re pattern of
        None \<Rightarrow> None
      | Some r \<Rightarrow> Some (subx repl s 0 (finditer re r s) w))"

text \<open>
  What every regular expression engine guarantees of the spans of one scan: each match
  starts at or after the end of the one before, ends at or after its start, and lies
  within the string.
\<close>

fun spans_ok :: "nat \<Rightarrow> nat \<Rightarrow> (nat \<times> nat) list \<Rightarrow> bool" where
  "spans_ok i n [] = True"
| "spans_ok i n ((b, e) # ms) = (i \<le> b \<and> b \<le> e \<and> e \<le> n \<and> spans_ok e n ms)"

definition re_contract :: "'r re_module \<Rightarrow> bool" where
  "re_contract re = (\<forall>r s. spans_ok 0 (length s) (finditer re r s))"


section \<open>Masking a text\<close>

text \<open>
  The loop over \<open>serial_patterns\<close>; the first argument of the recursion is the variable
  \<open>masked_text\<close>, which starts as \<open>text\<close>. The result \<open>None\<close> is Python's \<^verbatim>\<open>None\<close>.
\<close>

fun mask_serial_numbers_in_text :: "'r re_module \<Rightarrow> string \<Rightarrow> string list \<Rightarrow> world
    \<Rightarrow> string option \<times> world" where
  "mask_serial_numbers_in_text re masked_text [] w = (Some masked_text, w)"
| "mask_serial_numbers_in_text re masked_text (pattern # rest) w =
     (case re_sub re pattern mask_serial_number masked_text w of
        None \<Rightarrow> (None, logging (Error_invalid_regex pattern) w)
      | Some (t, w1) \<Rightarrow> mask_serial_numbers_in_text re t rest w1)"

definition DEFAULT_SERIAL_PATTERNS :: "string list" where
  "DEFAULT_SERIAL_PATTERNS =
     [''[A-Z0-9]{8}-[A-Z0-9]{4}-[A-Z0-9]{4}-[A-Z0-9]{4}-[A-Z0-9]{12}'',
      ''SN:[A-Z0-9]{10}'',
      ''[A-Z0-9]{15,20}'']"


section \<open>The file pipeline\<close>

text \<open>
  \<^verbatim>\<open>chardet.detect(raw_data)['encoding']\<close>, \<^verbatim>\<open>raw_data.decode(encoding)\<close> and the encoder
  that \<^verbatim>\<open>open(..., 'w', encoding=encoding)\<close> writes through are parameters too. Decoding
  raises \<^verbatim>\<open>UnicodeDecodeError\<close>, or \<^verbatim>\<open>LookupError\<close> for a label Python has no codec for;
  encoding raises \<^verbatim>\<open>UnicodeEncodeError\<close> (\<open>None\<close>).
\<close>

datatype decode_result = Decoded string | UnicodeDecodeError | LookupError

record codecs =
  chardet_detect :: "bytes \<Rightarrow> string option"
  bytes_decode :: "string \<Rightarrow> bytes \<Rightarrow> decode_result"
  str_encode :: "string \<Rightarrow> string \<Rightarrow> bytes option"

datatype io_error = FileNotFoundError | OSError

text \<open>\<^verbatim>\<open>with open(path, 'rb') as f: f.read()\<close>\<close>

definition read_binary :: "string \<Rightarrow> world \<Rightarrow> io_error + bytes" where
  "read_binary path w =
     (case files w path of
        None \<Rightarrow> Inl FileNotFoundError
      | Some raw \<Rightarrow> if path \<in> unreadable w then Inl OSError else Inr raw)"

text \<open>\<^verbatim>\<open>open(path, 'w')\<close> creates the file or truncates it, before anything is written.\<close>

definition open_write :: "string \<Rightarrow> world \<Rightarrow> io_error + world" where
  "open_write path w =
     (if path \<in> unwritable w then Inl OSError
      else Inr (w\<lparr>files := (files w)(path \<mapsto> [])\<rparr>))"

text \<open>
  Writing the encoded text to the opened file and closing it. When the device has no room
  for all of it, the bytes that fit stay in the file and the write raises.
\<close>

definition write_bytes :: "string \<Rightarrow> bytes \<Rightarrow> world \<Rightarrow> io_error option \<times> world" where
  "write_bytes path data w =
     (if length data \<le> space w
      then (None, w\<lparr>files := (files w)(path \<mapsto> data), space := space w - length data\<rparr>)
      else (Some OSError, w\<lparr>files := (files w)(path \<mapsto> take (space w) data), space := 0\<rparr>))"

text \<open>The second \<^verbatim>\<open>try\<close> block of \<open>process_file\<close>.\<close>

definition write_output :: "codecs \<Rightarrow> string \<Rightarrow> string \<Rightarrow> string \<Rightarrow> string \<Rightarrow> world
    \<Rightarrow> bool \<times> world" where
  "write_output cd input_file output_file encoding masked_text w =
     (case open_write output_file w of
        Inl e \<Rightarrow> (False, logging (Error_writing output_file) w)
      | Inr w1 \<Rightarrow>
          (case str_encode cd encoding masked_text of
             None \<Rightarrow> (False, logging (Error_writing output_file) w1)
           | Some data \<Rightarrow>
               (case write_bytes output_file data w1 of
                  (Some e, w2) \<Rightarrow> (False, logging (Error_writing output_file) w2)
                | (None, w2) \<Rightarrow> (True, logging (Info_processed input_file output_file) w2))))"

definition process_file :: "'r re_module \<Rightarrow> codecs \<Rightarrow> string \<Rightarrow> string \<Rightarrow> string list \<Rightarrow> world
    \<Rightarrow> bool \<times> world" where
  "process_file re cd input_file output_file serial_patterns w =
     (case read_binary input_file w of
        Inl FileNotFoundError \<Rightarrow> (False, logging (Error_not_found input_file) w)
      | Inl OSError \<Rightarrow> (False, logging (Error_reading input_file) w)
      | Inr raw_data \<Rightarrow>
          (case chardet_detect cd raw_data of
             None \<Rightarrow> (False, logging (Error_no_encoding input_file) w)
           | Some encoding \<Rightarrow>
               (case bytes_decode cd encoding raw_data of
                  UnicodeDecodeError \<Rightarrow> (False, logging (Error_decoding input_file encoding) w)
                | LookupError \<Rightarrow> (False, logging (Error_reading input_file) w)
                | Decoded text \<Rightarrow>
                    (case mask_serial_numbers_in_text re text serial_patterns w of
                       (None, w1) \<Rightarrow> (False, w1)
                     | (Some masked_text, w1) \<Rightarrow>
                         write_output cd input_file output_file encoding masked_text w1))))"


section \<open>A regular expression engine for a fragment of the syntax\<close>

text \<open>
  To run the program on its default patterns, one engine is written out: CPython's
  backtracking matcher, for patterns that are a sequence of items, each a literal
  character, a dot or a bracket set of characters and ranges, with an optional greedy
  repetition \<open>*\<close>, \<open>+\<close>, \<open>?\<close>, \<open>{m}\<close> or \<open>{m,n}\<close>. The three default patterns are of this form.
  \<open>parse\<close> refuses every other pattern: both those on which \<^verbatim>\<open>re.compile\<close> raises
  \<^verbatim>\<open>re.error\<close> (an unterminated set, a repetition of nothing, a repeated repetition, a
  reversed range or reversed bounds) and those using syntax outside the fragment. The
  general theorems below hold of every engine; this one is used at concrete inputs.
\<close>

datatype atom = Lit char | Dot | Class bool "(char \<times> char) list"

type_synonym item = "atom \<times> nat \<times> nat option"

fun accepts :: "atom \<Rightarrow> char \<Rightarrow> bool" where
  "accepts (Lit c) x = (x = c)"
| "accepts Dot x = (x \<noteq> CHR 0x0A)"
| "accepts (Class neg rs) x =
     (list_ex (\<lambda>(lo, hi). (of_char lo :: nat) \<le> of_char x \<and> (of_char x :: nat) \<le> of_char hi) rs \<noteq> neg)"

definition is_digit :: "char \<Rightarrow> bool" where
  "is_digit c = ((48::nat) \<le> of_char c \<and> (of_char c :: nat) \<le> 57)"

definition to_nat :: "string \<Rightarrow> nat" where
  "to_nat ds = foldl (\<lambda>n c. 10 * n + (of_char c - 48)) 0 ds"

definition in_set_special :: "char \<Rightarrow> bool" where
  "in_set_special c = (c \<in> set [CHR '']'', CHR ''['', CHR 0x5C, CHR ''^'', CHR ''-''])"

fun parse_set :: "string \<Rightarrow> (char \<times> char) list \<Rightarrow> ((char \<times> char) list \<times> string) option" where
  "parse_set [] acc = None"
| "parse_set (c # cs) acc =
     (if c = CHR '']'' then (if acc = [] then None else Some (rev acc, cs))
      else if in_set_special c then None
      else (case cs of
              d # e # cs' \<Rightarrow>
                if d = CHR ''-'' then
                  (if in_set_special e then None
                   else if (of_char c :: nat) \<le> of_char e then parse_set cs' ((c, e) # acc)
                   else None)
                else parse_set cs ((c, c) # acc)
            | _ \<Rightarrow> parse_set cs ((c, c) # acc)))"

definition special :: "char \<Rightarrow> bool" where
  "special c = (c \<in> set (''.^$*+?{}[]|()'' @ [CHR 0x5C]))"

fun parse_atom :: "string \<Rightarrow> (atom \<times> string) option" where
  "parse_atom [] = None"
| "parse_atom (c # cs) =
     (if c = CHR ''['' then
        (case cs of
           [] \<Rightarrow> None
         | d # ds \<Rightarrow>
             if d = CHR ''^'' then map_option (\<lambda>(rs, r). (Class True rs, r)) (parse_set ds [])
             else map_option (\<lambda>(rs, r). (Class False rs, r)) (parse_set cs []))
      else if c = CHR ''.'' then Some (Dot, cs)
      else if special c then None
      else Some (Lit c, cs))"

definition repeat_char :: "char \<Rightarrow> bool" where
  "repeat_char c = (c \<in> set ''*+?{'')"

definition no_repeat :: "nat \<Rightarrow> nat option \<Rightarrow> string \<Rightarrow> (nat \<times> nat option \<times> string) option" where
  "no_repeat lo hi r =
     (case r of
        [] \<Rightarrow> Some (lo, hi, r)
      | c # _ \<Rightarrow> if repeat_char c then None else Some (lo, hi, r))"

text \<open>The text after an opening brace: \<open>m}\<close> or \<open>m,n}\<close>.\<close>

definition parse_bounds :: "string \<Rightarrow> (nat \<times> nat option \<times> string) option" where
  "parse_bounds cs =
     (let lo = takeWhile is_digit cs; r1 = dropWhile is_digit cs
      in if lo = [] \<or> 9 < length lo then None
         else (case r1 of
                 [] \<Rightarrow> None
               | d # r2 \<Rightarrow>
                   if d = CHR ''}'' then no_repeat (to_nat lo) (Some (to_nat lo)) r2
                   else if d = CHR '','' then
                     (let hi = takeWhile is_digit r2; r3 = dropWhile is_digit r2
                      in if hi = [] \<or> 9 < length hi then None
                         else (case r3 of
                                 [] \<Rightarrow> None
                               | e # r4 \<Rightarrow>
                                   if e = CHR ''}'' \<and> to_nat lo \<le> to_nat hi
                                   then no_repeat (to_nat lo) (Some (to_nat hi)) r4
                                   else None))
                   else None))"

fun parse_quant :: "string \<Rightarrow> (nat \<times> nat option \<times> string) option" where
  "parse_quant [] = Some (1, Some 1, [])"
| "parse_quant (c # cs) =
     (if c = CHR ''*'' then no_repeat 0 None cs
      else if c = CHR ''+'' then no_repeat 1 None cs
      else if c = CHR ''?'' then no_repeat 0 (Some 1) cs
      else if c = CHR ''{'' then parse_bounds cs
      else Some (1, Some 1, c # cs))"

lemma parse_set_shorter: "parse_set s acc = Some (rs, r) \<Longrightarrow> length r < length s"
  by (induction s acc rule: parse_set.induct) (auto split: if_splits list.splits)

lemma parse_atom_shorter:
  assumes "parse_atom s = Some (a, r)"
  shows "length r < length s"
proof (cases s)
  case Nil
  with assms show ?thesis by simp
next
  case (Cons c cs)
  show ?thesis
  proof (cases "c = CHR ''[''")
    case bracket: True
    then obtain d ds where cs: "cs = d # ds"
      using assms Cons by (cases cs) simp_all
    show ?thesis
    proof (cases "d = CHR ''^''")
      case True
      with assms Cons bracket cs obtain rs where "parse_set ds [] = Some (rs, r)"
        by (cases "parse_set ds []") auto
      from parse_set_shorter [OF this] show ?thesis
        using Cons cs by simp
    next
      case False
      with assms Cons bracket cs obtain rs where "parse_set (d # ds) [] = Some (rs, r)"
        by (cases "parse_set (d # ds) []") auto
      from parse_set_shorter [OF this] show ?thesis
        using Cons cs by simp
    qed
  next
    case False
    with assms Cons show ?thesis
      by (simp split: if_splits)
  qed
qed

lemma no_repeat_same: "no_repeat lo hi r = Some (lo', hi', r') \<Longrightarrow> r' = r"
  by (cases r) (simp_all add: no_repeat_def split: if_splits)

lemma dropWhile_Cons_shorter: "dropWhile P xs = z # ys \<Longrightarrow> length ys < length xs"
proof -
  assume "dropWhile P xs = z # ys"
  then have "Suc (length ys) = length (dropWhile P xs)" by simp
  also have "\<dots> \<le> length xs" by (rule length_dropWhile_le)
  finally show ?thesis by simp
qed

lemma parse_bounds_shorter:
  assumes "parse_bounds cs = Some (lo, hi, r)"
  shows "length r < length cs"
proof -
  obtain d r2 where r1: "dropWhile is_digit cs = d # r2"
    using assms
    by (cases "dropWhile is_digit cs")
       (simp_all add: parse_bounds_def Let_def split: if_splits del: dropWhile_eq_Nil_conv)
  have l1: "length r2 < length cs"
    by (rule dropWhile_Cons_shorter [OF r1])
  show ?thesis
  proof (cases "d = CHR ''}''")
    case True
    with assms r1 have "no_repeat (to_nat (takeWhile is_digit cs))
        (Some (to_nat (takeWhile is_digit cs))) r2 = Some (lo, hi, r)"
      by (simp add: parse_bounds_def Let_def split: if_splits)
    from no_repeat_same [OF this] l1 show ?thesis by simp
  next
    case False
    with assms r1 have comma: "d = CHR '',''"
      by (simp add: parse_bounds_def Let_def split: if_splits)
    obtain e r4 where r3: "dropWhile is_digit r2 = e # r4"
      using assms r1 False comma
      by (cases "dropWhile is_digit r2")
         (simp_all add: parse_bounds_def Let_def split: if_splits del: dropWhile_eq_Nil_conv)
    have l2: "length r4 < length r2"
      by (rule dropWhile_Cons_shorter [OF r3])
    from assms r1 False comma r3 have "no_repeat (to_nat (takeWhile is_digit cs))
        (Some (to_nat (takeWhile is_digit r2))) r4 = Some (lo, hi, r)"
      by (simp add: parse_bounds_def Let_def split: if_splits)
    from no_repeat_same [OF this] l1 l2 show ?thesis by simp
  qed
qed

lemma parse_quant_shorter:
  assumes "parse_quant s = Some (lo, hi, r)"
  shows "length r \<le> length s"
proof (cases s)
  case Nil
  with assms show ?thesis by simp
next
  case (Cons c cs)
  consider "c = CHR ''*''" | "c = CHR ''+''" | "c = CHR ''?''" | "c = CHR ''{''"
    | "c \<noteq> CHR ''*''" "c \<noteq> CHR ''+''" "c \<noteq> CHR ''?''" "c \<noteq> CHR ''{''"
    by blast
  then show ?thesis
  proof cases
    case 1
    with assms Cons have "no_repeat 0 None cs = Some (lo, hi, r)" by simp
    from no_repeat_same [OF this] Cons show ?thesis by simp
  next
    case 2
    with assms Cons have "no_repeat 1 None cs = Some (lo, hi, r)" by simp
    from no_repeat_same [OF this] Cons show ?thesis by simp
  next
    case 3
    with assms Cons have "no_repeat 0 (Some 1) cs = Some (lo, hi, r)" by simp
    from no_repeat_same [OF this] Cons show ?thesis by simp
  next
    case 4
    with assms Cons have "parse_bounds cs = Some (lo, hi, r)" by simp
    from parse_bounds_shorter [OF this] Cons show ?thesis by simp
  next
    case 5
    with assms Cons show ?thesis by simp
  qed
qed

function parse :: "string \<Rightarrow> item list option" where
  "parse [] = Some []"
| "parse (c # cs) =
     (case parse_atom (c # cs) of
        None \<Rightarrow> None
      | Some (a, r1) \<Rightarrow>
          (case parse_quant r1 of
             None \<Rightarrow> None
           | Some (lo, hi, r2) \<Rightarrow> map_option ((#) (a, lo, hi)) (parse r2)))"
  by pat_completeness auto
termination
proof (relation "measure length")
  show "wf (measure length)" by simp
next
  fix c cs x2 a r1 x2a lo y hi r2
  assume "parse_atom (c # cs) = Some x2" "(a, r1) = x2"
    "parse_quant r1 = Some x2a" "(lo, y) = x2a" "(hi, r2) = y"
  then have "length r1 < length (c # cs)" "length r2 \<le> length r1"
    using parse_atom_shorter parse_quant_shorter by metis+
  then show "(r2, c # cs) \<in> measure length" by simp
qed



text \<open>
  \<open>run\<close> counts the characters at the start of the string that the atom accepts. An item
  first takes as many as it may and gives them back one at a time, down to its minimum,
  until the rest of the pattern matches. \<open>n\<close> is the number of characters matched so far;
  with \<open>adv\<close> (the scan's \<^verbatim>\<open>must_advance\<close>) an empty match is refused.
\<close>

fun run :: "atom \<Rightarrow> string \<Rightarrow> nat" where
  "run a [] = 0"
| "run a (x # xs) = (if accepts a x then Suc (run a xs) else 0)"

primrec try_down :: "(nat \<Rightarrow> 'a option) \<Rightarrow> nat \<Rightarrow> nat \<Rightarrow> 'a option" where
  "try_down f lo 0 = f lo"
| "try_down f lo (Suc k) =
     (case f (lo + Suc k) of
        Some r \<Rightarrow> Some r
      | None \<Rightarrow> try_down f lo k)"

fun match_here :: "item list \<Rightarrow> string \<Rightarrow> nat \<Rightarrow> bool \<Rightarrow> nat option" where
  "match_here [] s n adv = (if adv \<and> n = 0 then None else Some n)"
| "match_here ((a, lo, hi) # its) s n adv =
     (let k = (case hi of None \<Rightarrow> run a s | Some h \<Rightarrow> min h (run a s))
      in if k < lo then None
         else try_down (\<lambda>j. match_here its (drop j s) (n + j) adv) lo (k - lo))"

fun search :: "item list \<Rightarrow> string \<Rightarrow> bool \<Rightarrow> (nat \<times> nat) option" where
  "search r [] adv = map_option (Pair 0) (match_here r [] 0 adv)"
| "search r (x # xs) adv =
     (case match_here r (x # xs) 0 adv of
        Some n \<Rightarrow> Some (0, n)
      | None \<Rightarrow> map_option (\<lambda>(k, n). (Suc k, n)) (search r xs False))"

lemma run_le: "run a s \<le> length s"
  by (induction s) simp_all

lemma try_down_Some:
  "try_down f lo k = Some r \<Longrightarrow> \<exists>j. lo \<le> j \<and> j \<le> lo + k \<and> f j = Some r"
proof (induction k)
  case 0
  then show ?case by auto
next
  case (Suc k)
  show ?case
  proof (cases "f (lo + Suc k)")
    case None
    with Suc.prems have "try_down f lo k = Some r" by simp
    from Suc.IH [OF this] obtain j where "lo \<le> j" "j \<le> lo + k" "f j = Some r" by blast
    then show ?thesis by (intro exI [of _ j]) simp
  next
    case (Some x)
    with Suc.prems have "f (lo + Suc k) = Some r" by simp
    then show ?thesis by (intro exI [of _ "lo + Suc k"]) simp
  qed
qed

lemma match_here_bounds:
  "match_here its s n adv = Some e \<Longrightarrow> n \<le> e \<and> e \<le> n + length s \<and> (adv \<longrightarrow> 0 < e)"
proof (induction its arbitrary: s n)
  case Nil
  then show ?case by (auto split: if_splits)
next
  case (Cons it its)
  obtain a lo hi where it: "it = (a, lo, hi)" by (cases it)
  define k where "k = (case hi of None \<Rightarrow> run a s | Some h \<Rightarrow> min h (run a s))"
  have k_le: "k \<le> length s"
    using run_le [of a s] by (auto simp: k_def split: option.splits)
  from Cons.prems it have lo_le: "lo \<le> k"
    and t: "try_down (\<lambda>j. match_here its (drop j s) (n + j) adv) lo (k - lo) = Some e"
    by (simp_all add: k_def [symmetric] Let_def split: if_splits)
  from try_down_Some [OF t] obtain j
    where j: "lo \<le> j" "j \<le> lo + (k - lo)" "match_here its (drop j s) (n + j) adv = Some e"
    by blast
  from Cons.IH [OF j(3)] j(1,2) lo_le k_le show ?case by auto
qed

lemma search_bounds:
  "search r s adv = Some (k, n) \<Longrightarrow> k + n \<le> length s \<and> (adv \<longrightarrow> 0 < k + n)"
proof (induction s arbitrary: adv k)
  case Nil
  then show ?case by (auto dest: match_here_bounds)
next
  case (Cons x xs)
  show ?case
  proof (cases "match_here r (x # xs) 0 adv")
    case None
    with Cons.prems obtain k' where "search r xs False = Some (k', n)" "k = Suc k'"
      by auto
    with Cons.IH [of False k'] show ?thesis by simp
  next
    case (Some m)
    with Cons.prems have "k = 0" "m = n" by simp_all
    with match_here_bounds [OF Some] show ?thesis by simp
  qed
qed

function scan :: "item list \<Rightarrow> string \<Rightarrow> nat \<Rightarrow> bool \<Rightarrow> (nat \<times> nat) list" where
  "scan r s pos adv =
     (case search r (drop pos s) adv of
        None \<Rightarrow> []
      | Some (k, n) \<Rightarrow> (pos + k, pos + k + n) # scan r s (pos + k + n) (n = 0))"
  by pat_completeness auto
termination
proof (relation "measure (\<lambda>(r, s, pos, adv). 2 * (length s - pos) + (if adv then 0 else 1))")
  show "wf (measure (\<lambda>(r, s, pos, adv). 2 * (length s - pos) + (if adv then 0 else 1)))"
    by simp
next
  fix r :: "item list" and s :: string and pos :: nat and adv :: bool and x2 k y
  assume "search r (drop pos s) adv = Some x2" "(k, y) = x2"
  then have "search r (drop pos s) adv = Some (k, y)" by simp
  from search_bounds [OF this]
  have "k + y \<le> length s - pos" "adv \<longrightarrow> 0 < k + y" by simp_all
  then show "((r, s, pos + k + y, y = 0), r, s, pos, adv)
      \<in> measure (\<lambda>(r, s, pos, adv). 2 * (length s - pos) + (if adv then 0 else 1))"
    by (cases adv) auto
qed

declare scan.simps [simp del]

text \<open>
  \<open>search\<close> tries each start position from the left and gives the distance to the first
  match and its length; \<open>scan\<close> is the loop of \<^verbatim>\<open>re.sub\<close>: after a match the search
  resumes at its end, and after an empty match it must advance.
\<close>

definition fragment :: "item list re_module" where
  "fragment = \<lparr>compile = parse, finditer = (\<lambda>r s. scan r s 0 False)\<rparr>"


section \<open>Concrete worlds and codecs\<close>

text \<open>
  A world whose generator delivers 0, 1, 2, ... (so the tokens read A, B, C, ...), and a
  one-byte codec: detection fails on empty input, as \<^verbatim>\<open>chardet\<close> does, and answers
  ISO-8859-1 otherwise.
\<close>

definition w0 :: world where
  "w0 = \<lparr>rng = siterate Suc 0, log = [], files = Map.empty, unreadable = {},
          unwritable = {}, space = 0\<rparr>"

definition latin1 :: codecs where
  "latin1 =
     \<lparr>chardet_detect = (\<lambda>raw. if raw = [] then None else Some ''ISO-8859-1''),
      bytes_decode = (\<lambda>encoding raw.
         if encoding = ''ISO-8859-1'' then Decoded (map (\<lambda>b. char_of (unat b)) raw)
         else LookupError),
      str_encode = (\<lambda>encoding s. Some (map (\<lambda>c. of_nat (of_char c)) s))\<rparr>"


section \<open>Properties of the token generator\<close>

lemma random_choice_in: "seq \<noteq> [] \<Longrightarrow> fst (random_choice seq w) \<in> set seq"
  by (simp add: random_choice_def)

lemma characters_nonempty: "characters \<noteq> []"
  by (simp add: characters_def)

lemma length_choices: "length (fst (choices n w)) = n"
  by (induction n arbitrary: w) (simp_all add: split_beta Let_def)

lemma set_choices: "set (fst (choices n w)) \<subseteq> set characters"
proof (induction n arbitrary: w)
  case 0
  show ?case by simp
next
  case (Suc n)
  have "fst (random_choice characters w) \<in> set characters"
    by (rule random_choice_in [OF characters_nonempty])
  with Suc show ?case
    by (simp add: split_beta Let_def)
qed

lemma files_choices: "files (snd (choices n w)) = files w"
  by (induction n arbitrary: w) (simp_all add: split_beta Let_def random_choice_def)

lemma log_choices: "log (snd (choices n w)) = log w"
  by (induction n arbitrary: w) (simp_all add: split_beta Let_def random_choice_def)

lemma length_generate_random_string:
  "length (fst (generate_random_string n w)) = nat n"
  by (simp add: generate_random_string_def length_choices)

lemma length_mask_serial_number:
  "length (fst (mask_serial_number m w)) = length (group0 m)"
  by (simp add: mask_serial_number_def Let_def split_beta length_generate_random_string)

lemma set_mask_serial_number:
  "set (fst (mask_serial_number m w)) \<subseteq> set characters"
  by (simp add: mask_serial_number_def Let_def split_beta generate_random_string_def
      set_choices)


text \<open>
  Claim C1. Whatever the match and whatever the random generator delivers, the string
  that \<open>mask_serial_number\<close> returns for a match is exactly as long as the matched text
  \<^verbatim>\<open>match.group(0)\<close>.
\<close>

theorem C1_replacement_length:
  "length (fst (mask_serial_number m w)) = length (group0 m)"
  by (rule length_mask_serial_number)

text \<open>
  Claim C2. For every requested length, every character of the string that
  \<open>generate_random_string\<close> returns is one of the generator's alphabet, and that alphabet
  is the 36 characters A to Z and 0 to 9, each once.
\<close>

theorem C2_alphabet:
  "set (fst (generate_random_string n w)) \<subseteq> set characters
   \<and> characters = ''ABCDEFGHIJKLMNOPQRSTUVWXYZ0123456789''
   \<and> distinct characters \<and> length characters = 36"
proof (intro conjI)
  show "set (fst (generate_random_string n w)) \<subseteq> set characters"
    by (simp add: generate_random_string_def set_choices)
  show "characters = ''ABCDEFGHIJKLMNOPQRSTUVWXYZ0123456789''"
    by (simp add: characters_def)
  show "distinct characters"
    by (simp add: characters_def)
  show "length characters = 36"
    by (simp add: characters_def)
qed

end
